theory Spec2Isabelle
  imports Complex_Main
begin

section \<open>Data model\<close>

text \<open>
  The simple stock market: \<^verbatim>\<open>models/common.py\<close>, \<^verbatim>\<open>models/stock.py\<close>,
  \<^verbatim>\<open>models/trade.py\<close> and \<^verbatim>\<open>stock_market.py\<close>.

  Values follow the type hints of the source. An \<^verbatim>\<open>int\<close> is an \<^typ>\<open>int\<close>; a
  value annotated \<^verbatim>\<open>float\<close> is a float, also where a caller passes an \<^verbatim>\<open>int\<close>
  literal for it; the \<^verbatim>\<open>int\<close> 0 that a method returns in place of a float is the
  float 0. \<^verbatim>\<open>Optional[t]\<close> is \<^typ>\<open>'a option\<close>. A \<^verbatim>\<open>datetime\<close> is the number
  of microseconds since the epoch (UTC). Logging, with the formatting of the log
  messages, is not modelled; a handler that logs and re-raises is the identity on results.
\<close>

datatype StockType = COMMON | PREFERRED

datatype TradeType = BUY | SELL

text \<open>The exception classes that the modelled code can raise.\<close>

datatype error =
    ValueError
  | KeyError string
  | TypeError
  | ZeroDivisionError
  | OverflowError
  | NotImplementedError

section \<open>Python floats\<close>

text \<open>
  A \<^verbatim>\<open>float\<close> is a finite number, an infinity or NaN. Finite arithmetic is exact:
  the rounding of IEEE doubles to 53 bits, underflow and the sign of zero are not
  modelled. The range is: a result whose magnitude reaches \<open>2^1024 - 2^970\<close>, the
  least magnitude that rounds to an infinity, overflows.
\<close>

datatype pyfloat = is_Fl: Fl (float_val: real) | PosInf | NegInf | NaN

definition float_limit :: real where
  "float_limit = 2 ^ 1024 - 2 ^ 970"

text \<open>The result of an arithmetic operation on two finite floats: overflow gives an infinity.\<close>

definition overflow_to_inf :: "real \<Rightarrow> pyfloat" where
  "overflow_to_inf x =
     (if float_limit \<le> x then PosInf else if x \<le> - float_limit then NegInf else Fl x)"

text \<open>
  The conversion of an \<^verbatim>\<open>int\<close> operand of mixed arithmetic to a float:
  \<^verbatim>\<open>OverflowError: int too large to convert to float\<close>.
\<close>

definition fits_float :: "int \<Rightarrow> bool" where
  "fits_float i = (\<bar>real_of_int i\<bar> < float_limit)"

definition float_of_int :: "int \<Rightarrow> error + pyfloat" where
  "float_of_int i = (if fits_float i then Inr (Fl (real_of_int i)) else Inl OverflowError)"

text \<open>The sign of a float that is not NaN, and the infinity or NaN of a sign.\<close>

fun float_sgn :: "pyfloat \<Rightarrow> real" where
  "float_sgn (Fl a) = sgn a"
| "float_sgn PosInf = 1"
| "float_sgn NegInf = - 1"
| "float_sgn NaN = 0"

definition inf_of_sign :: "real \<Rightarrow> pyfloat" where
  "inf_of_sign s = (if 0 < s then PosInf else if s < 0 then NegInf else NaN)"

text \<open>\<^verbatim>\<open>x * y\<close>, \<^verbatim>\<open>x + y\<close> and the quotient of \<^verbatim>\<open>x / y\<close> on floats: they never raise.\<close>

fun float_mul :: "pyfloat \<Rightarrow> pyfloat \<Rightarrow> pyfloat" where
  "float_mul NaN y = NaN"
| "float_mul x NaN = NaN"
| "float_mul (Fl a) (Fl b) = overflow_to_inf (a * b)"
| "float_mul x y = inf_of_sign (float_sgn x * float_sgn y)"


fun float_div :: "pyfloat \<Rightarrow> pyfloat \<Rightarrow> pyfloat" where
  "float_div NaN y = NaN"
| "float_div x NaN = NaN"
| "float_div (Fl a) (Fl b) = overflow_to_inf (a / b)"
| "float_div (Fl a) y = Fl 0"
| "float_div x (Fl b) = inf_of_sign (float_sgn x * sgn b)"
| "float_div x y = NaN"

text \<open>True division \<^verbatim>\<open>x / y\<close> of floats: \<^verbatim>\<open>ZeroDivisionError\<close> on a zero divisor.\<close>

definition float_truediv :: "pyfloat \<Rightarrow> pyfloat \<Rightarrow> error + pyfloat" where
  "float_truediv x y = (if y = Fl 0 then Inl ZeroDivisionError else Inr (float_div x y))"

text \<open>
  The comparisons \<^verbatim>\<open>x <= 0\<close> and \<^verbatim>\<open>x > 0\<close>: both are false for NaN.
\<close>

fun float_le0 :: "pyfloat \<Rightarrow> bool" where
  "float_le0 (Fl a) = (a \<le> 0)"
| "float_le0 NegInf = True"
| "float_le0 PosInf = False"
| "float_le0 NaN = False"

fun float_gt0 :: "pyfloat \<Rightarrow> bool" where
  "float_gt0 (Fl a) = (0 < a)"
| "float_gt0 PosInf = True"
| "float_gt0 NegInf = False"
| "float_gt0 NaN = False"




section \<open>Python primitives\<close>

text \<open>
  Truth value of an \<^verbatim>\<open>Optional\<close> number: \<^verbatim>\<open>None\<close> and zero are falsy; NaN and
  the infinities are truthy.
\<close>

definition truthy :: "int option \<Rightarrow> bool" where
  "truthy x = (case x of None \<Rightarrow> False | Some v \<Rightarrow> v \<noteq> 0)"

definition truthy_float :: "pyfloat option \<Rightarrow> bool" where
  "truthy_float x = (case x of None \<Rightarrow> False | Some v \<Rightarrow> v \<noteq> Fl 0)"

text \<open>Sequencing of two computations that can raise.\<close>

definition bind_result :: "error + 'a \<Rightarrow> ('a \<Rightarrow> error + 'b) \<Rightarrow> error + 'b" where
  "bind_result r f = (case r of Inl e \<Rightarrow> Inl e | Inr v \<Rightarrow> f v)"

text \<open>\<^verbatim>\<open>try: body  except Exception: return 0\<close>\<close>

definition except_return_0 :: "error + pyfloat \<Rightarrow> error + pyfloat" where
  "except_return_0 body = (case body of Inl e \<Rightarrow> Inr (Fl 0) | Inr v \<Rightarrow> Inr v)"

section \<open>models/stock.py\<close>

text \<open>
  The dataclasses \<^verbatim>\<open>Stock\<close>, \<^verbatim>\<open>CommonStock(Stock)\<close> and
  \<^verbatim>\<open>PreferredStock(Stock)\<close>; the last adds the field \<^verbatim>\<open>fixed_dividend\<close>.
\<close>

datatype stock =
    Stock (symbol: string) (last_dividend: "int option") (par_value: "int option")
  | CommonStock (symbol: string) (last_dividend: "int option") (par_value: "int option")
  | PreferredStock (symbol: string) (last_dividend: "int option") (par_value: "int option")
      (fixed_dividend: "pyfloat option")

text \<open>
  \<^verbatim>\<open>CommonStock.calculate_dividend_yield\<close>:
  \<^verbatim>\<open>
  if market_price <= 0: raise ValueError(...)
  return self.last_dividend / market_price if self.last_dividend else 0
  \<close>
  The division of an \<^verbatim>\<open>int\<close> by a float first converts the \<^verbatim>\<open>int\<close>.
\<close>

definition CommonStock_calculate_dividend_yield :: "stock \<Rightarrow> pyfloat \<Rightarrow> error + pyfloat" where
  "CommonStock_calculate_dividend_yield self market_price =
     (if float_le0 market_price then Inl ValueError
      else if truthy (last_dividend self)
        then bind_result (float_of_int (the (last_dividend self)))
               (\<lambda>d. float_truediv d market_price)
        else Inr (Fl 0))"

text \<open>
  \<^verbatim>\<open>PreferredStock.calculate_dividend_yield\<close>:
  \<^verbatim>\<open>
  if market_price <= 0 or not self.fixed_dividend: raise ValueError(...)
  return (self.fixed_dividend * self.par_value) / market_price
  \<close>
  Multiplying a float by \<^verbatim>\<open>None\<close> raises \<^verbatim>\<open>TypeError\<close>; multiplying it by an
  \<^verbatim>\<open>int\<close> first converts the \<^verbatim>\<open>int\<close>.
\<close>

definition PreferredStock_calculate_dividend_yield :: "stock \<Rightarrow> pyfloat \<Rightarrow> error + pyfloat" where
  "PreferredStock_calculate_dividend_yield self market_price =
     (if float_le0 market_price \<or> \<not> truthy_float (fixed_dividend self) then Inl ValueError
      else (case par_value self of
              None \<Rightarrow> Inl TypeError
            | Some pv \<Rightarrow>
                bind_result (float_of_int pv)
                  (\<lambda>p. float_truediv (float_mul (the (fixed_dividend self)) p) market_price)))"

text \<open>Method dispatch on the class of the object; the base class is abstract.\<close>

fun calculate_dividend_yield :: "stock \<Rightarrow> pyfloat \<Rightarrow> error + pyfloat" where
  "calculate_dividend_yield (Stock s ld pv) market_price = Inl NotImplementedError"
| "calculate_dividend_yield (CommonStock s ld pv) market_price =
     CommonStock_calculate_dividend_yield (CommonStock s ld pv) market_price"
| "calculate_dividend_yield (PreferredStock s ld pv fd) market_price =
     PreferredStock_calculate_dividend_yield (PreferredStock s ld pv fd) market_price"

text \<open>
  \<^verbatim>\<open>Stock.calculate_pe_ratio\<close>:
  \<^verbatim>\<open>
  try:
      if (dividend_yield := self.calculate_dividend_yield(market_price)) == 0:
          return 0
      return market_price / dividend_yield
  except Exception as e:
      return 0
  \<close>
\<close>

definition calculate_pe_ratio :: "stock \<Rightarrow> pyfloat \<Rightarrow> error + pyfloat" where
  "calculate_pe_ratio self market_price =
     except_return_0
       (case calculate_dividend_yield self market_price of
          Inl e \<Rightarrow> Inl e
        | Inr dividend_yield \<Rightarrow>
            if dividend_yield = Fl 0 then Inr (Fl 0)
            else float_truediv market_price dividend_yield)"

section \<open>models/trade.py\<close>

type_synonym datetime = int

record trade =
  stock :: stock
  quantity :: int
  ttype :: TradeType
  traded_price :: pyfloat
  timestamp :: datetime

text \<open>
  \<^verbatim>\<open>Trade.__post_init__\<close>:
  \<^verbatim>\<open>
  if self.quantity <= 0: raise ValueError("Trade quantity must be greater than zero")
  if self.traded_price <= 0: raise ValueError("Traded price must be greater than zero")
  \<close>
\<close>

definition Trade_post_init :: "trade \<Rightarrow> error + unit" where
  "Trade_post_init self =
     (if quantity self \<le> 0 then Inl ValueError
      else if float_le0 (traded_price self) then Inl ValueError
      else Inr ())"

text \<open>
  The generated constructor \<^verbatim>\<open>Trade(stock=, quantity=, type=, traded_price=)\<close>:
  the timestamp is the default factory \<^verbatim>\<open>datetime.now(timezone.utc)\<close>, here the
  clock reading \<open>now\<close>; then \<^verbatim>\<open>__post_init__\<close> runs.
\<close>

definition Trade_init ::
  "datetime \<Rightarrow> stock \<Rightarrow> int \<Rightarrow> TradeType \<Rightarrow> pyfloat \<Rightarrow> error + trade" where
  "Trade_init now stk qty tt price =
     (let self = \<lparr>stock = stk, quantity = qty, ttype = tt, traded_price = price,
                   timestamp = now\<rparr>
      in case Trade_post_init self of Inl e \<Rightarrow> Inl e | Inr u \<Rightarrow> Inr self)"

section \<open>stock_market.py\<close>

record StockMarket =
  trades :: "trade list"
  stocks :: "string \<rightharpoonup> stock"

text \<open>\<^verbatim>\<open>StockMarket.__init__\<close>: no trades, no stocks.\<close>

definition StockMarket_init :: StockMarket where
  "StockMarket_init = \<lparr>trades = [], stocks = Map.empty\<rparr>"

text \<open>
  A method that mutates the market returns its outcome together with the market as the
  call leaves it, also when it raises.

  \<^verbatim>\<open>StockMarket.record_trade\<close>:
  \<^verbatim>\<open>
  stock = self.stocks.get(stock_symbol)
  if not stock:
      raise ValueError(f"Stock {stock_symbol} not found in the market")
  self.trades.append(Trade(stock=stock, quantity=quantity, type=trade_type, traded_price=price))
  \<close>
  A dataclass instance is always truthy, so \<^verbatim>\<open>not stock\<close> is the missing key.
\<close>

definition record_trade ::
  "StockMarket \<Rightarrow> datetime \<Rightarrow> string \<Rightarrow> int \<Rightarrow> TradeType \<Rightarrow> pyfloat
     \<Rightarrow> (error + unit) \<times> StockMarket" where
  "record_trade self now stock_symbol qty trade_type price =
     (case stocks self stock_symbol of
        None \<Rightarrow> (Inl ValueError, self)
      | Some stk \<Rightarrow>
          (case Trade_init now stk qty trade_type price of
             Inl e \<Rightarrow> (Inl e, self)
           | Inr t \<Rightarrow> (Inr (), self\<lparr>trades := trades self @ [t]\<rparr>)))"







text \<open>
  The input of \<^verbatim>\<open>get_stocks\<close> is a list of dictionaries
  (\<^verbatim>\<open>Dict[str, Union[str, int, float]]\<close>). A dictionary is modelled by the keys the
  method reads, each \<open>None\<close> when the key is absent. The value under \<^verbatim>\<open>'type'\<close> is
  any value of the union; the other values have the types of the dataclass fields they
  are passed to.
\<close>

datatype pyval = PStr string | PInt int | PFloat pyfloat

record stock_data =
  d_symbol :: "string option"
  d_type :: "pyval option"
  d_last_dividend :: "int option"
  d_par_value :: "int option"
  d_fixed_dividend :: "pyfloat option"

text \<open>\<^verbatim>\<open>data[key]\<close>: a missing key raises \<^verbatim>\<open>KeyError\<close>.\<close>

definition getitem :: "string \<Rightarrow> 'a option \<Rightarrow> error + 'a" where
  "getitem key entry = (case entry of None \<Rightarrow> Inl (KeyError key) | Some v \<Rightarrow> Inr v)"

text \<open>
  \<^verbatim>\<open>str.upper\<close>, on the bytes of the string: the letters a to z go to A to Z. No
  other character has an upper case among the letters of the two member names.
\<close>

definition upper_char :: "char \<Rightarrow> char" where
  "upper_char c =
     (let n = (of_char c :: nat) in if 97 \<le> n \<and> n \<le> 122 then char_of (n - 32) else c)"

definition upper :: "string \<Rightarrow> string" where
  "upper s = map upper_char s"

text \<open>\<^verbatim>\<open>StockType.__members__\<close>\<close>

definition StockType_members :: "string \<rightharpoonup> StockType" where
  "StockType_members = map_of [(''COMMON'', COMMON), (''PREFERRED'', PREFERRED)]"

text \<open>
  \<^verbatim>\<open>
  stock_type = StockType[data['type'].upper()]
      if isinstance(data.get('type'), str) and data['type'].upper() in StockType.__members__
      else None
  \<close>
\<close>

definition resolve_stock_type :: "stock_data \<Rightarrow> StockType option" where
  "resolve_stock_type data =
     (case d_type data of
        Some (PStr s) \<Rightarrow> StockType_members (upper s)
      | _ \<Rightarrow> None)"

text \<open>
  The body of the loop of \<^verbatim>\<open>StockMarket.get_stocks\<close>:
  \<^verbatim>\<open>
  if not stock_type:
      raise ValueError(f"Unknown or missing stock type {data.get('type')}")
  if stock_type == StockType.COMMON:
      self.stocks[data['symbol']] = CommonStock(symbol=data['symbol'],
          last_dividend=data['last_dividend'], par_value=data['par_value'])
  elif stock_type == StockType.PREFERRED:
      self.stocks[data['symbol']] = PreferredStock(symbol=data['symbol'],
          last_dividend=data['last_dividend'], par_value=data['par_value'],
          fixed_dividend=data['fixed_dividend'])
  \<close>
  The right-hand side is evaluated first, its arguments from left to right, then the
  key of the target.
\<close>

definition get_stocks_body :: "StockMarket \<Rightarrow> stock_data \<Rightarrow> error + StockMarket" where
  "get_stocks_body self data =
     (case resolve_stock_type data of
        None \<Rightarrow> Inl ValueError
      | Some COMMON \<Rightarrow>
          bind_result (getitem ''symbol'' (d_symbol data)) (\<lambda>sym.
          bind_result (getitem ''last_dividend'' (d_last_dividend data)) (\<lambda>ld.
          bind_result (getitem ''par_value'' (d_par_value data)) (\<lambda>pv.
          bind_result (getitem ''symbol'' (d_symbol data)) (\<lambda>key.
            Inr (self\<lparr>stocks := (stocks self)(key \<mapsto> CommonStock sym (Some ld) (Some pv))\<rparr>)))))
      | Some PREFERRED \<Rightarrow>
          bind_result (getitem ''symbol'' (d_symbol data)) (\<lambda>sym.
          bind_result (getitem ''last_dividend'' (d_last_dividend data)) (\<lambda>ld.
          bind_result (getitem ''par_value'' (d_par_value data)) (\<lambda>pv.
          bind_result (getitem ''fixed_dividend'' (d_fixed_dividend data)) (\<lambda>fd.
          bind_result (getitem ''symbol'' (d_symbol data)) (\<lambda>key.
            Inr (self\<lparr>stocks :=
              (stocks self)(key \<mapsto> PreferredStock sym (Some ld) (Some pv) (Some fd))\<rparr>)))))))"

text \<open>
  \<^verbatim>\<open>StockMarket.get_stocks\<close>: \<^verbatim>\<open>for data in stock_data: ...\<close>; an exception
  leaves the loop and is raised again by the handler.
\<close>

fun get_stocks :: "StockMarket \<Rightarrow> stock_data list \<Rightarrow> (error + unit) \<times> StockMarket" where
  "get_stocks self [] = (Inr (), self)"
| "get_stocks self (data # rest) =
     (case get_stocks_body self data of
        Inl e \<Rightarrow> (Inl e, self)
      | Inr self' \<Rightarrow> get_stocks self' rest)"

section \<open>Runs of the market\<close>

text \<open>
  The two mutating methods as calls, and the market after a sequence of calls on a new
  \<^verbatim>\<open>StockMarket()\<close>. A call that raises is part of the run: the caller can catch the
  exception and go on with the market as the call left it.
\<close>

datatype call =
    GetStocks "stock_data list"
  | RecordTrade datetime string int TradeType pyfloat

fun exec_call :: "StockMarket \<Rightarrow> call \<Rightarrow> StockMarket" where
  "exec_call m (GetStocks stock_data) = snd (get_stocks m stock_data)"
| "exec_call m (RecordTrade now stock_symbol qty trade_type price) =
     snd (record_trade m now stock_symbol qty trade_type price)"

definition run :: "call list \<Rightarrow> StockMarket" where
  "run calls = foldl exec_call StockMarket_init calls"


text \<open>
  What \<^verbatim>\<open>Trade.__post_init__\<close> lets through: a positive quantity and a price that
  is not \<^verbatim>\<open><= 0\<close>.
\<close>

definition ledger_ok :: "StockMarket \<Rightarrow> bool" where
  "ledger_ok m = (\<forall>t \<in> set (trades m). 0 < quantity t \<and> \<not> float_le0 (traded_price t))"

section \<open>The data of the test suite\<close>

text \<open>
  The stocks, records and trades of \<^verbatim>\<open>test/test_stock_market.py\<close>; one record of a
  preferred stock without the key \<^verbatim>\<open>'fixed_dividend'\<close>; a quantity beyond the
  range of a float; and a trade with the price NaN.
\<close>

definition ABC :: stock where
  "ABC = CommonStock ''ABC'' (Some 8) (Some 100)"

definition XYZ :: stock where
  "XYZ = PreferredStock ''XYZ'' (Some 8) (Some 100) (Some (Fl (2 / 100)))"

definition abc_data :: stock_data where
  "abc_data = \<lparr>d_symbol = Some ''ABC'', d_type = Some (PStr ''common''),
                d_last_dividend = Some 8, d_par_value = Some 100, d_fixed_dividend = None\<rparr>"

definition xyz_data :: stock_data where
  "xyz_data = \<lparr>d_symbol = Some ''XYZ'', d_type = Some (PStr ''preferred''),
                d_last_dividend = Some 8, d_par_value = Some 100,
                d_fixed_dividend = Some (Fl (2 / 100))\<rparr>"

definition def_data :: stock_data where
  "def_data = \<lparr>d_symbol = Some ''DEF'', d_type = Some (PStr ''unknown''),
                d_last_dividend = Some 10, d_par_value = Some 50, d_fixed_dividend = None\<rparr>"

definition xyz_data_no_fixed_dividend :: stock_data where
  "xyz_data_no_fixed_dividend =
     \<lparr>d_symbol = Some ''XYZ'', d_type = Some (PStr ''Preferred''),
      d_last_dividend = Some 8, d_par_value = Some 100, d_fixed_dividend = None\<rparr>"

definition abc_market :: StockMarket where
  "abc_market = \<lparr>trades = [], stocks = [''ABC'' \<mapsto> ABC]\<rparr>"


definition huge :: int where
  "huge = 10 ^ 400"


definition nan_calls :: "call list" where
  "nan_calls =
     [GetStocks [abc_data],
      RecordTrade 1000000001 ''ABC'' 1 BUY NaN]"

section \<open>The range of floats\<close>

lemma float_limit_ge: "2 ^ 1023 \<le> float_limit"
proof -
  have "(2::real) ^ 970 \<le> 2 ^ 1023"
    by (rule power_increasing) simp_all
  moreover have "(2::real) ^ 1024 = 2 * 2 ^ 1023"
    by simp
  ultimately show ?thesis
    by (simp add: float_limit_def)
qed

lemma float_limit_pos: "0 < float_limit"
proof -
  have "(0::real) < 2 ^ 1023" by simp
  with float_limit_ge show ?thesis by linarith
qed

lemma float_limit_le: "float_limit \<le> 2 ^ 1024"
  by (simp add: float_limit_def)

lemma small_lt_float_limit: "x < 2 ^ 64 \<Longrightarrow> x < float_limit"
proof -
  assume "x < 2 ^ 64"
  moreover have "(2::real) ^ 64 \<le> 2 ^ 1023"
    by (rule power_increasing) simp_all
  ultimately show ?thesis using float_limit_ge by linarith
qed

lemma overflow_to_inf_in_range: "\<bar>x\<bar> < float_limit \<Longrightarrow> overflow_to_inf x = Fl x"
  by (auto simp: overflow_to_inf_def)

lemma overflow_to_inf_small: "\<bar>x\<bar> < 2 ^ 64 \<Longrightarrow> overflow_to_inf x = Fl x"
  by (rule overflow_to_inf_in_range) (rule small_lt_float_limit)

lemma fits_float_small: "\<bar>i\<bar> < 2 ^ 64 \<Longrightarrow> fits_float i"
proof -
  assume "\<bar>i\<bar> < 2 ^ 64"
  then have "real_of_int \<bar>i\<bar> < real_of_int (2 ^ 64)"
    by (simp only: of_int_less_iff)
  then have "\<bar>real_of_int i\<bar> < 2 ^ 64" by simp
  then show ?thesis
    unfolding fits_float_def by (rule small_lt_float_limit)
qed

lemma float_of_int_small: "\<bar>i\<bar> < 2 ^ 64 \<Longrightarrow> float_of_int i = Inr (Fl (real_of_int i))"
  by (simp add: float_of_int_def fits_float_small)

lemma not_fits_float_huge: "\<not> fits_float huge"
proof -
  have "(2::real) ^ 1024 \<le> 2 ^ 1200"
    by (rule power_increasing) simp_all
  also have "(2::real) ^ 1200 = (2 ^ 3) ^ 400"
    by (simp only: power_mult [symmetric]) simp
  also have "\<dots> \<le> (10::real) ^ 400"
    by (rule power_mono) simp_all
  finally have "float_limit \<le> (10::real) ^ 400"
    using float_limit_le by linarith
  then show ?thesis
    by (simp add: fits_float_def huge_def)
qed


section \<open>Dividend yield and P/E ratio\<close>

lemma fits_float_0: "fits_float 0"
  by (simp add: fits_float_def float_limit_pos)

lemma float_gt0_not_le0: "float_gt0 x \<Longrightarrow> \<not> float_le0 x"
  by (cases x) auto




text \<open>
  Claim C5, as amended. For a preferred stock, the dividend yield raises
  \<^verbatim>\<open>ValueError\<close> when the market price is \<^verbatim>\<open><= 0\<close> or the fixed dividend is
  unset or zero. Otherwise, for a stock whose par value is set and converts to a float, it
  is the fixed dividend times the par value, divided by the market price, in float
  arithmetic; for finite numbers, a positive market price and results within the range of
  floats it is that number.
\<close>

theorem preferred_dividend_yield:
  "(float_le0 market_price \<or> fd = None \<or> fd = Some (Fl 0) \<longrightarrow>
      calculate_dividend_yield (PreferredStock s ld pv fd) market_price = Inl ValueError)
   \<and> (\<not> float_le0 market_price \<and> f \<noteq> Fl 0 \<and> fits_float p \<longrightarrow>
        calculate_dividend_yield (PreferredStock s ld (Some p) (Some f)) market_price =
          Inr (float_div (float_mul f (Fl (real_of_int p))) market_price))
   \<and> (0 < x \<and> y \<noteq> 0 \<and> fits_float p \<and> \<bar>y * real_of_int p\<bar> < float_limit
         \<and> \<bar>y * real_of_int p / x\<bar> < float_limit \<longrightarrow>
        calculate_dividend_yield (PreferredStock s ld (Some p) (Some (Fl y))) (Fl x) =
          Inr (Fl (y * real_of_int p / x)))"
  by (auto simp: PreferredStock_calculate_dividend_yield_def truthy_float_def bind_result_def
        float_of_int_def float_truediv_def overflow_to_inf_in_range)

theorem preferred_dividend_yield_witness:
  "calculate_dividend_yield XYZ (Fl 100) = Inr (Fl (2 / 100))
   \<and> calculate_dividend_yield XYZ (Fl 0) = Inl ValueError
   \<and> calculate_dividend_yield (PreferredStock ''XYZ'' (Some 8) (Some 100) None) (Fl 100)
       = Inl ValueError
   \<and> calculate_dividend_yield XYZ PosInf = Inr (Fl 0)"
  using preferred_dividend_yield
          [of "Fl 100" "Some (Fl (2 / 100))" "''XYZ''" "Some 8" "Some 100" "Fl (2 / 100)" 100
              100 "2 / 100"]
        preferred_dividend_yield
          [of "Fl 0" "Some (Fl (2 / 100))" "''XYZ''" "Some 8" "Some 100" "Fl (2 / 100)" 100
              100 "2 / 100"]
        preferred_dividend_yield
          [of "Fl 100" None "''XYZ''" "Some 8" "Some 100" "Fl (2 / 100)" 100 100 "2 / 100"]
        preferred_dividend_yield
          [of PosInf "Some (Fl (2 / 100))" "''XYZ''" "Some 8" "Some 100" "Fl (2 / 100)" 100
              100 "2 / 100"]
  by (simp add: XYZ_def fits_float_small small_lt_float_limit overflow_to_inf_small)

text \<open>
  With the par value unset the product raises \<^verbatim>\<open>TypeError\<close>, and with a par value
  too large to convert to a float it raises \<^verbatim>\<open>OverflowError\<close>.
\<close>

lemma preferred_dividend_yield_par_value_unset:
  "\<not> float_le0 market_price \<Longrightarrow> f \<noteq> Fl 0 \<Longrightarrow>
     calculate_dividend_yield (PreferredStock s ld None (Some f)) market_price = Inl TypeError"
  by (simp add: PreferredStock_calculate_dividend_yield_def truthy_float_def)

lemma preferred_dividend_yield_par_value_too_large:
  "\<not> float_le0 market_price \<Longrightarrow> f \<noteq> Fl 0 \<Longrightarrow> \<not> fits_float p \<Longrightarrow>
     calculate_dividend_yield (PreferredStock s ld (Some p) (Some f)) market_price
       = Inl OverflowError"
  by (simp add: PreferredStock_calculate_dividend_yield_def truthy_float_def bind_result_def
        float_of_int_def)

text \<open>
  Claim C5 as it is written fails: with the fixed dividend set to 0 and a positive market
  price the formula gives 0, and the method raises \<^verbatim>\<open>ValueError\<close>; with the fixed
  dividend set and the par value unset, or set to \<open>10^400\<close>, the method raises
  \<^verbatim>\<open>TypeError\<close>, or \<^verbatim>\<open>OverflowError\<close>.
\<close>

theorem preferred_dividend_yield_counterexample:
  "calculate_dividend_yield (PreferredStock ''XYZ'' (Some 8) (Some 100) (Some (Fl 0))) (Fl 100)
     = Inl ValueError
   \<and> float_div (float_mul (Fl 0) (Fl 100)) (Fl 100) = Fl 0
   \<and> calculate_dividend_yield
        (PreferredStock ''XYZ'' (Some 8) None (Some (Fl (2 / 100)))) (Fl 100)
     = Inl TypeError
   \<and> calculate_dividend_yield
        (PreferredStock ''XYZ'' (Some 8) (Some huge) (Some (Fl (2 / 100)))) (Fl 100)
     = Inl OverflowError"
  by (simp add: PreferredStock_calculate_dividend_yield_def truthy_float_def bind_result_def
        float_of_int_def not_fits_float_huge overflow_to_inf_small)

text \<open>
  Claim C10. A preferred stock whose fixed dividend is set to 0 raises
  \<^verbatim>\<open>ValueError\<close> for every market price that is not \<^verbatim>\<open><= 0\<close>, so for every
  positive one, as a stock whose fixed dividend is unset does; a common stock whose last
  dividend is set to 0 has yield 0 for every such market price.
\<close>

theorem zero_dividend_is_falsy:
  "\<not> float_le0 market_price \<longrightarrow>
     calculate_dividend_yield (PreferredStock s ld pv (Some (Fl 0))) market_price
       = Inl ValueError
     \<and> calculate_dividend_yield (PreferredStock s ld pv None) market_price = Inl ValueError
     \<and> calculate_dividend_yield (CommonStock s' (Some 0) pv') market_price = Inr (Fl 0)"
  by (simp add: PreferredStock_calculate_dividend_yield_def
        CommonStock_calculate_dividend_yield_def truthy_def truthy_float_def)

theorem zero_dividend_is_falsy_witness:
  "float_gt0 (Fl 100)
   \<and> calculate_dividend_yield (PreferredStock ''XYZ'' (Some 8) (Some 100) (Some (Fl 0))) (Fl 100)
       = Inl ValueError
   \<and> calculate_dividend_yield (CommonStock ''ABC'' (Some 0) (Some 100)) (Fl 100) = Inr (Fl 0)"
  using zero_dividend_is_falsy
          [of "Fl 100" "''XYZ''" "Some 8" "Some 100" "''ABC''" "Some 100"]
  by simp

text \<open>
  Claim C3. The P/E ratio never raises. It is the market price divided by the dividend
  yield when the yield is computed and is not zero, and it is 0 when the yield is 0 and
  when computing the yield raises.
\<close>

theorem pe_ratio_swallows_errors:
  "calculate_pe_ratio self market_price =
     Inr (case calculate_dividend_yield self market_price of
            Inl e \<Rightarrow> Fl 0
          | Inr dividend_yield \<Rightarrow>
              if dividend_yield = Fl 0 then Fl 0 else float_div market_price dividend_yield)"
  by (simp add: calculate_pe_ratio_def except_return_0_def float_truediv_def
           split: sum.splits)

theorem pe_ratio_swallows_errors_witness:
  "calculate_pe_ratio ABC (Fl 100) = Inr (Fl 1250)
   \<and> calculate_pe_ratio ABC (Fl 0) = Inr (Fl 0)
   \<and> calculate_pe_ratio (CommonStock ''ABC'' None (Some 100)) (Fl 100) = Inr (Fl 0)
   \<and> calculate_pe_ratio (Stock ''ABC'' (Some 8) (Some 100)) (Fl 100) = Inr (Fl 0)
   \<and> calculate_pe_ratio (CommonStock ''ABC'' (Some huge) (Some 100)) (Fl 100) = Inr (Fl 0)"
  using pe_ratio_swallows_errors [of ABC "Fl 100"]
        pe_ratio_swallows_errors [of ABC "Fl 0"]
        pe_ratio_swallows_errors [of "CommonStock ''ABC'' None (Some 100)" "Fl 100"]
        pe_ratio_swallows_errors [of "Stock ''ABC'' (Some 8) (Some 100)" "Fl 100"]
        pe_ratio_swallows_errors [of "CommonStock ''ABC'' (Some huge) (Some 100)" "Fl 100"]
        not_fits_float_huge fits_float_0
  by (auto simp: ABC_def CommonStock_calculate_dividend_yield_def truthy_def bind_result_def
        float_of_int_def fits_float_small float_truediv_def overflow_to_inf_small)

section \<open>Recording trades\<close>

lemma Trade_init_cases:
  "Trade_init now stk qty tt price =
     (if qty \<le> 0 \<or> float_le0 price then Inl ValueError
      else Inr \<lparr>stock = stk, quantity = qty, ttype = tt, traded_price = price,
                timestamp = now\<rparr>)"
  by (simp add: Trade_init_def Trade_post_init_def Let_def)






section \<open>Loading stocks\<close>

lemma get_stocks_append:
  "get_stocks m (xs @ ys) =
     (case get_stocks m xs of
        (Inl e, m') \<Rightarrow> (Inl e, m')
      | (Inr u, m') \<Rightarrow> get_stocks m' ys)"
  by (induction xs arbitrary: m) (auto split: sum.splits)

lemma resolve_stock_type_cases:
  "resolve_stock_type d =
     (case d_type d of
        Some (PStr s) \<Rightarrow>
          if upper s = ''COMMON'' then Some COMMON
          else if upper s = ''PREFERRED'' then Some PREFERRED else None
      | _ \<Rightarrow> None)"
  by (auto simp: resolve_stock_type_def StockType_members_def
           split: option.splits pyval.splits)

lemma get_stocks_body_trades:
  "get_stocks_body m d = Inr m' \<Longrightarrow> trades m' = trades m"
  by (auto simp: get_stocks_body_def bind_result_def getitem_def
           split: option.splits StockType.splits)

lemma get_stocks_trades: "trades (snd (get_stocks m ds)) = trades m"
  by (induction ds arbitrary: m) (auto split: sum.splits dest: get_stocks_body_trades)

text \<open>
  Claim C7, as amended. \<^verbatim>\<open>get_stocks\<close> goes through the records in order. Let the
  records \<open>pre\<close> be processed without error, leaving the market \<open>m'\<close>, and let \<open>d\<close> be
  the next record.
  \<^item> The type of \<open>d\<close> is recognized if and only if the value under \<^verbatim>\<open>'type'\<close> is a
    string whose upper case is \<^verbatim>\<open>COMMON\<close> or \<^verbatim>\<open>PREFERRED\<close>.
  \<^item> When the type is unknown or missing the call raises \<^verbatim>\<open>ValueError\<close> and
    leaves the market \<open>m'\<close>: \<open>d\<close> is not added, the records after it are not read,
    and the records before it stay applied.
  \<^item> When the type is recognized and the record has the keys \<^verbatim>\<open>'symbol'\<close>,
    \<^verbatim>\<open>'last_dividend'\<close>, \<^verbatim>\<open>'par_value'\<close> and, for a preferred stock,
    \<^verbatim>\<open>'fixed_dividend'\<close>, the stock is stored under its symbol, in place of any
    stock stored there before.
  \<^item> When the type is recognized and one of these keys is missing the call raises
    \<^verbatim>\<open>KeyError\<close> and leaves the market \<open>m'\<close>.
\<close>

theorem get_stocks_sequential:
  assumes pre: "get_stocks m pre = (Inr (), m')"
  shows "(resolve_stock_type d = None \<longleftrightarrow>
            \<not> (\<exists>s. d_type d = Some (PStr s)
                   \<and> (upper s = ''COMMON'' \<or> upper s = ''PREFERRED'')))
    \<and> (resolve_stock_type d = None \<longrightarrow>
          get_stocks m (pre @ d # post) = (Inl ValueError, m'))
    \<and> (resolve_stock_type d = Some COMMON \<and> d_symbol d = Some sy
         \<and> d_last_dividend d = Some ld \<and> d_par_value d = Some pv \<longrightarrow>
          get_stocks m (pre @ [d]) =
            (Inr (), m'\<lparr>stocks := (stocks m')(sy \<mapsto> CommonStock sy (Some ld) (Some pv))\<rparr>))
    \<and> (resolve_stock_type d = Some PREFERRED \<and> d_symbol d = Some sy
         \<and> d_last_dividend d = Some ld \<and> d_par_value d = Some pv
         \<and> d_fixed_dividend d = Some fd \<longrightarrow>
          get_stocks m (pre @ [d]) =
            (Inr (), m'\<lparr>stocks :=
               (stocks m')(sy \<mapsto> PreferredStock sy (Some ld) (Some pv) (Some fd))\<rparr>))
    \<and> (resolve_stock_type d \<noteq> None \<and>
         (d_symbol d = None \<or> d_last_dividend d = None \<or> d_par_value d = None
          \<or> (resolve_stock_type d = Some PREFERRED \<and> d_fixed_dividend d = None)) \<longrightarrow>
          (\<exists>k. get_stocks m (pre @ d # post) = (Inl (KeyError k), m')))"
proof -
  have a: "resolve_stock_type d = None \<longleftrightarrow>
            \<not> (\<exists>s. d_type d = Some (PStr s)
                   \<and> (upper s = ''COMMON'' \<or> upper s = ''PREFERRED''))"
    by (auto simp: resolve_stock_type_cases split: option.splits pyval.splits)
  have b: "resolve_stock_type d = None \<longrightarrow>
          get_stocks m (pre @ d # post) = (Inl ValueError, m')"
    by (simp add: get_stocks_append pre get_stocks_body_def)
  have c: "resolve_stock_type d = Some COMMON \<and> d_symbol d = Some sy
         \<and> d_last_dividend d = Some ld \<and> d_par_value d = Some pv \<longrightarrow>
          get_stocks m (pre @ [d]) =
            (Inr (), m'\<lparr>stocks := (stocks m')(sy \<mapsto> CommonStock sy (Some ld) (Some pv))\<rparr>)"
    by (simp add: get_stocks_append pre get_stocks_body_def bind_result_def getitem_def)
  have d: "resolve_stock_type d = Some PREFERRED \<and> d_symbol d = Some sy
         \<and> d_last_dividend d = Some ld \<and> d_par_value d = Some pv
         \<and> d_fixed_dividend d = Some fd \<longrightarrow>
          get_stocks m (pre @ [d]) =
            (Inr (), m'\<lparr>stocks :=
               (stocks m')(sy \<mapsto> PreferredStock sy (Some ld) (Some pv) (Some fd))\<rparr>)"
    by (simp add: get_stocks_append pre get_stocks_body_def bind_result_def getitem_def)
  have e: "resolve_stock_type d \<noteq> None \<and>
         (d_symbol d = None \<or> d_last_dividend d = None \<or> d_par_value d = None
          \<or> (resolve_stock_type d = Some PREFERRED \<and> d_fixed_dividend d = None)) \<longrightarrow>
          (\<exists>k. get_stocks m (pre @ d # post) = (Inl (KeyError k), m'))"
    by (cases "resolve_stock_type d")
       (auto simp: get_stocks_append pre get_stocks_body_def bind_result_def getitem_def
             split: StockType.splits option.splits)
  from a b c d e show ?thesis by blast
qed

lemma resolve_abc_data: "resolve_stock_type abc_data = Some COMMON"
  by code_simp

lemma resolve_xyz_data: "resolve_stock_type xyz_data = Some PREFERRED"
  by code_simp

lemma resolve_def_data: "resolve_stock_type def_data = None"
  by code_simp

lemma resolve_xyz_data_no_fixed_dividend:
  "resolve_stock_type xyz_data_no_fixed_dividend = Some PREFERRED"
  by code_simp

lemma get_stocks_abc_data: "get_stocks StockMarket_init [abc_data] = (Inr (), abc_market)"
proof -
  have "get_stocks_body StockMarket_init abc_data = Inr abc_market"
    unfolding get_stocks_body_def resolve_abc_data
    by (simp add: abc_data_def bind_result_def getitem_def StockMarket_init_def
          abc_market_def ABC_def)
  then show ?thesis by simp
qed

theorem get_stocks_sequential_witness:
  "get_stocks StockMarket_init [abc_data] = (Inr (), abc_market)
   \<and> get_stocks StockMarket_init ([abc_data] @ def_data # [xyz_data])
       = (Inl ValueError, abc_market)
   \<and> get_stocks StockMarket_init ([abc_data] @ [xyz_data])
       = (Inr (), abc_market\<lparr>stocks := (stocks abc_market)(''XYZ'' \<mapsto> XYZ)\<rparr>)
   \<and> get_stocks StockMarket_init ([abc_data] @ [abc_data])
       = (Inr (), abc_market\<lparr>stocks := (stocks abc_market)(''ABC'' \<mapsto> ABC)\<rparr>)
   \<and> (\<exists>k. get_stocks StockMarket_init ([abc_data] @ xyz_data_no_fixed_dividend # [abc_data])
            = (Inl (KeyError k), abc_market))"
proof -
  have 1: "get_stocks StockMarket_init ([abc_data] @ def_data # [xyz_data])
       = (Inl ValueError, abc_market)"
    using get_stocks_sequential [OF get_stocks_abc_data, of def_data] resolve_def_data
    by blast
  have 2: "get_stocks StockMarket_init ([abc_data] @ [xyz_data])
       = (Inr (), abc_market\<lparr>stocks := (stocks abc_market)(''XYZ'' \<mapsto> XYZ)\<rparr>)"
    using get_stocks_sequential
            [OF get_stocks_abc_data, of xyz_data "[]" "''XYZ''" 8 100 "Fl (2 / 100)"]
          resolve_xyz_data
    by (simp add: xyz_data_def XYZ_def)
  have 3: "get_stocks StockMarket_init ([abc_data] @ [abc_data])
       = (Inr (), abc_market\<lparr>stocks := (stocks abc_market)(''ABC'' \<mapsto> ABC)\<rparr>)"
    using get_stocks_sequential
            [OF get_stocks_abc_data, of abc_data "[]" "''ABC''" 8 100 "Fl 0"]
          resolve_abc_data
    by (simp add: abc_data_def ABC_def)
  have 4: "\<exists>k. get_stocks StockMarket_init
                 ([abc_data] @ xyz_data_no_fixed_dividend # [abc_data])
            = (Inl (KeyError k), abc_market)"
    using get_stocks_sequential
            [OF get_stocks_abc_data, of xyz_data_no_fixed_dividend "[abc_data]"]
          resolve_xyz_data_no_fixed_dividend
    by (simp add: xyz_data_no_fixed_dividend_def)
  from get_stocks_abc_data 1 2 3 4 show ?thesis by blast
qed

text \<open>
  Claim C7 as it is written fails: a record whose type is recognized is not inserted
  when a key of the stock is missing. The record of a preferred stock without
  \<^verbatim>\<open>'fixed_dividend'\<close> raises \<^verbatim>\<open>KeyError\<close>, which is not a \<^verbatim>\<open>ValueError\<close>,
  and the catalog stays empty.
\<close>

theorem get_stocks_counterexample:
  "resolve_stock_type xyz_data_no_fixed_dividend = Some PREFERRED
   \<and> get_stocks StockMarket_init [xyz_data_no_fixed_dividend]
       = (Inl (KeyError ''fixed_dividend''), StockMarket_init)
   \<and> stocks (snd (get_stocks StockMarket_init [xyz_data_no_fixed_dividend])) ''XYZ'' = None"
proof -
  have "get_stocks_body StockMarket_init xyz_data_no_fixed_dividend
          = Inl (KeyError ''fixed_dividend'')"
    unfolding get_stocks_body_def resolve_xyz_data_no_fixed_dividend
    by (simp add: xyz_data_no_fixed_dividend_def bind_result_def getitem_def)
  then show ?thesis
    by (simp add: resolve_xyz_data_no_fixed_dividend StockMarket_init_def)
qed

section \<open>The ledger\<close>

lemma exec_call_ledger_ok: "ledger_ok m \<Longrightarrow> ledger_ok (exec_call m c)"
  by (cases c)
     (auto simp: ledger_ok_def get_stocks_trades record_trade_def Trade_init_cases
           split: option.splits if_splits)

lemma foldl_exec_call_ledger_ok: "ledger_ok m \<Longrightarrow> ledger_ok (foldl exec_call m cs)"
  by (induction cs arbitrary: m) (auto simp: exec_call_ledger_ok)

lemma run_ledger_ok: "ledger_ok (run calls)"
  unfolding run_def
  by (rule foldl_exec_call_ledger_ok) (simp add: ledger_ok_def StockMarket_init_def)

lemma sum_list_quantity_nonneg:
  "\<forall>t \<in> set ts. 0 < quantity t \<Longrightarrow> 0 \<le> sum_list (map quantity ts)"
  by (induction ts) auto

lemma sum_list_quantity_pos:
  "ts \<noteq> [] \<Longrightarrow> \<forall>t \<in> set ts. 0 < quantity t \<Longrightarrow> 0 < sum_list (map quantity ts)"
  using sum_list_quantity_nonneg [of "tl ts"] by (cases ts) auto

text \<open>
  What holds of every ledger built by the two methods: the quantities are positive and no
  price is \<^verbatim>\<open><= 0\<close>, so the quantities of any selection of trades that is not empty
  add up to a positive number.
\<close>

lemma run_quantities_positive:
  "(\<forall>t \<in> set (trades (run calls)). 0 < quantity t \<and> \<not> float_le0 (traded_price t))
   \<and> (filter P (trades (run calls)) \<noteq> [] \<longrightarrow>
        0 < (\<Sum>t\<leftarrow>filter P (trades (run calls)). quantity t))"
proof -
  have ok: "\<forall>t \<in> set (trades (run calls)). 0 < quantity t \<and> \<not> float_le0 (traded_price t)"
    using run_ledger_ok [of calls] by (simp add: ledger_ok_def)
  then have "\<forall>t \<in> set (filter P (trades (run calls))). 0 < quantity t"
    by simp
  then have "filter P (trades (run calls)) \<noteq> [] \<longrightarrow>
        0 < (\<Sum>t\<leftarrow>filter P (trades (run calls)). quantity t)"
    using sum_list_quantity_pos by blast
  with ok show ?thesis by blast
qed




text \<open>
  Claim C8. The ledger is meant to hold only trades with a positive quantity and a
  positive price: \<^verbatim>\<open>__post_init__\<close> raises "Traded price must be greater than zero".
  The check is \<^verbatim>\<open>traded_price <= 0\<close>, which is false for NaN, so \<^verbatim>\<open>record_trade\<close>
  with the price NaN appends a trade whose price is not greater than zero.
\<close>

theorem nan_price_enters_ledger:
  "trades (run nan_calls) =
     [\<lparr>stock = ABC, quantity = 1, ttype = BUY, traded_price = NaN,
       timestamp = 1000000001\<rparr>]
   \<and> \<not> float_gt0 (traded_price (last (trades (run nan_calls))))"
  by (simp add: run_def nan_calls_def get_stocks_abc_data record_trade_def Trade_init_cases
        abc_market_def del: get_stocks.simps)

section \<open>Volume weighted stock price\<close>









section \<open>GBCE all share index\<close>










end
